theory Spec2Isabelle
  imports Main "HOL-Library.Word"
begin

unbundle bit_operations_syntax

section \<open>The CR95HF RFID driver: data model\<close>

text \<open>
  The driver (\<^verbatim>\<open>rfid_cr95hf.c\<close>) talks to the reader chip over SPI, toggles two GPIO
  lines and sleeps between phases.  The model threads one record through every function:
  the fields of \<^verbatim>\<open>struct rfid_cr95hf_data\<close>, the part of the configuration the code
  branches on, and the environment (bus, clock, IRQ_OUT line) together with a trace of
  every effect the driver performs, in order.  Logging is not modelled.
\<close>

type_synonym byte = "8 word"

text \<open>\<^verbatim>\<open>rfid_mode_t\<close> and \<^verbatim>\<open>rfid_protocol_t\<close> of \<^verbatim>\<open>rfid.h\<close>, with the enumerators' values.\<close>

datatype rfid_mode_t =
  UNINITIALIZED | POWER_UP | READY | HIBERNATE | SLEEP | TAG_DETECTOR | READER | INVALID

fun mode_value :: "rfid_mode_t \<Rightarrow> nat" where
  "mode_value UNINITIALIZED = 0"
| "mode_value POWER_UP = 1"
| "mode_value READY = 2"
| "mode_value HIBERNATE = 3"
| "mode_value SLEEP = 4"
| "mode_value TAG_DETECTOR = 5"
| "mode_value READER = 6"
| "mode_value INVALID = 7"

datatype rfid_protocol_t = FIELD_OFF | ISO_15693 | ISO_14443A | ISO_14443B | ISO_18092

text \<open>The errno values the driver returns negated (Zephyr's \<^verbatim>\<open>errno.h\<close>).\<close>

definition EPERM :: int where "EPERM = 1"
definition EIO :: int where "EIO = 5"
definition EINVAL :: int where "EINVAL = 22"

text \<open>
  Effects.  \<open>GpioSet p v\<close> is \<^verbatim>\<open>gpio_pin_set_dt(p, v)\<close> with the logical level \<open>v\<close>
  (the chip-select line is active when \<open>v\<close> is true); \<open>Sleep us\<close> is \<^verbatim>\<open>k_sleep\<close> for
  \<open>us\<close> microseconds; the three SPI events are the three bus calls of
  \<^verbatim>\<open>rfid_cr95hf_transceive\<close>, with the bytes sent and the number of bytes to receive;
  the last four are the steps of the wait on the IRQ_OUT line.
\<close>

datatype pin = CS | IRQ_IN

datatype event =
    GpioSet pin bool
  | Sleep nat
  | SpiTransceive "byte list" nat
  | SpiWrite "byte list"
  | SpiRead nat
  | IrqOutGet bool
  | IrqOutArm
  | SemTake
  | IrqOutDisarm

text \<open>
  What the IRQ_OUT line does at one call of \<^verbatim>\<open>rfid_cr95hf_wait_for_irq_out_low\<close>:
  it already reads active, or it reads inactive and the edge arrives later, or it reads
  inactive and the edge never arrives.
\<close>

datatype irq_obs = Asserted | EdgeLater | Silent

text \<open>
  The device.  \<open>snd_len\<close> and \<open>rcv_len\<close> are \<^verbatim>\<open>spi_snd_buffer.len\<close> and
  \<^verbatim>\<open>spi_rcv_buffer.len\<close>; \<open>irq_out\<close> says whether \<^verbatim>\<open>config->irq_out\<close> is non-null;
  \<open>RCV_BUF_SIZE\<close> is the constant \<^verbatim>\<open>CR95HF_RCV_BUF_SIZE\<close> of the private header, taken as
  a parameter.  The environment: \<open>spi_script\<close> gives, for each bus call still to come, its
  return code and the bytes clocked in; \<open>irq_script\<close> gives the behaviour of the IRQ_OUT line
  at each wait still to come; \<open>uptime_us\<close> is the monotonic clock in microseconds
  (\<^verbatim>\<open>k_uptime_get\<close> reads it in milliseconds).  A script that is used up means the environment
  never answers: the call does not return (\<open>None\<close>).
\<close>

record device =
  current_mode :: rfid_mode_t
  cm_timestamp :: nat
  tag_detector_msg :: "byte list"
  protocol_msg :: "byte list"
  protocol_msg_len :: nat
  snd_len :: nat
  rcv_len :: nat
  rcv_buffer :: "byte list"
  snd_buffer :: "byte list"
  irq_out :: bool
  RCV_BUF_SIZE :: nat
  spi_script :: "(int \<times> byte list) list"
  irq_script :: "irq_obs list"
  uptime_us :: nat
  cs_active :: bool
  trace :: "event list"

section \<open>Kernel and bus primitives\<close>

definition k_sleep :: "nat \<Rightarrow> device \<Rightarrow> device" where
  "k_sleep us d = d\<lparr>uptime_us := uptime_us d + us, trace := trace d @ [Sleep us]\<rparr>"

definition k_uptime_get :: "device \<Rightarrow> nat" where
  "k_uptime_get d = uptime_us d div 1000"

definition gpio_pin_set :: "pin \<Rightarrow> bool \<Rightarrow> device \<Rightarrow> device" where
  "gpio_pin_set p v d =
     (let d' = d\<lparr>trace := trace d @ [GpioSet p v]\<rparr>
      in if p = CS then d'\<lparr>cs_active := v\<rparr> else d')"

text \<open>
  Received bytes land at the start of the receive buffer: at most \<open>n\<close> of them, and never
  past the end of the array.
\<close>

definition store_rx :: "byte list \<Rightarrow> nat \<Rightarrow> byte list \<Rightarrow> byte list" where
  "store_rx buf n rx =
     (let k = min n (min (length rx) (length buf)) in take k rx @ drop k buf)"

text \<open>
  One call of the SPI bus primitive: it takes the next entry of the script, records the
  event, and on success stores the received bytes.  On failure the receive buffer is left
  as it was.
\<close>

definition spi_bus :: "event \<Rightarrow> nat \<Rightarrow> device \<Rightarrow> (int \<times> device) option" where
  "spi_bus ev n d =
     (case spi_script d of
        [] \<Rightarrow> None
      | (err, rx) # rest \<Rightarrow>
          Some (err, d\<lparr>spi_script := rest, trace := trace d @ [ev],
                       rcv_buffer := (if err = 0 then store_rx (rcv_buffer d) n rx
                                      else rcv_buffer d)\<rparr>))"

fun is_spi_event :: "event \<Rightarrow> bool" where
  "is_spi_event (SpiTransceive tx n) = True"
| "is_spi_event (SpiWrite tx) = True"
| "is_spi_event (SpiRead n) = True"
| "is_spi_event e = False"

text \<open>
  Two notions for statements about the mode state machine: the events on the IRQ_IN line
  (the wake pulse), and two device states that agree on the mode, on its timestamp and on
  the IRQ_IN events made so far.
\<close>

fun is_irq_in_event :: "event \<Rightarrow> bool" where
  "is_irq_in_event (GpioSet p v) = (p = IRQ_IN)"
| "is_irq_in_event e = False"

definition same_mode :: "device \<Rightarrow> device \<Rightarrow> bool" where
  "same_mode d d' =
     (current_mode d' = current_mode d \<and> cm_timestamp d' = cm_timestamp d
      \<and> filter is_irq_in_event (trace d') = filter is_irq_in_event (trace d))"

section \<open>Frame transport\<close>

text \<open>\<^verbatim>\<open>rfid_cr95hf_setmode\<close>: record the mode and the uptime in milliseconds.\<close>

definition rfid_cr95hf_setmode :: "device \<Rightarrow> rfid_mode_t \<Rightarrow> device" where
  "rfid_cr95hf_setmode d m = d\<lparr>current_mode := m, cm_timestamp := k_uptime_get d\<rparr>"

text \<open>
  \<^verbatim>\<open>rfid_cr95hf_transceive\<close>: assert chip-select, settle 1 ms, then one of three bus calls
  (or none) chosen by the two lengths; a failing bus call returns at once; otherwise
  chip-select is released when asked for, and a last 1 ms delay follows.
\<close>

definition rfid_cr95hf_transceive :: "device \<Rightarrow> bool \<Rightarrow> (int \<times> device) option" where
  "rfid_cr95hf_transceive d release_cs =
     (let d1 = k_sleep 1000 (gpio_pin_set CS True d);
          r = (if snd_len d1 > 0 \<and> rcv_len d1 > 0 then
                 spi_bus (SpiTransceive (take (snd_len d1) (snd_buffer d1)) (rcv_len d1))
                         (rcv_len d1) d1
               else if snd_len d1 > 0 then
                 spi_bus (SpiWrite (take (snd_len d1) (snd_buffer d1))) 0 d1
               else if rcv_len d1 > 0 then
                 spi_bus (SpiRead (rcv_len d1)) (rcv_len d1) d1
               else Some (0, d1))
      in case r of
           None \<Rightarrow> None
         | Some (err, d2) \<Rightarrow>
             if err \<noteq> 0 then Some (err, d2)
             else Some (0, k_sleep 1000
                             (if release_cs then gpio_pin_set CS False (k_sleep 1000 d2)
                              else d2)))"

section \<open>Readiness synchronizer\<close>

text \<open>
  The \<^verbatim>\<open>while (1)\<close> loop of \<^verbatim>\<open>rfid_cr95hf_polling\<close>: clear the flag byte, read one
  byte, return the error of a failed read, return 0 when a requested ready bit is set,
  otherwise go round again.  The loop has no exit of its own, so it is a partial function:
  \<open>None\<close> is a call that never returns.
\<close>

partial_function (option) poll_loop :: "bool \<Rightarrow> bool \<Rightarrow> device \<Rightarrow> (int \<times> device) option" where
  "poll_loop ready_read ready_send d =
     (case rfid_cr95hf_transceive (d\<lparr>rcv_buffer := (rcv_buffer d)[0 := 0]\<rparr>) True of
        None \<Rightarrow> None
      | Some (err, d') \<Rightarrow>
          if err \<noteq> 0 then Some (err, d')
          else if ready_read \<and> (rcv_buffer d' ! 0) AND 0x8 \<noteq> 0 then Some (0, d')
          else if ready_send \<and> (rcv_buffer d' ! 0) AND 0x4 \<noteq> 0 then Some (0, d')
          else poll_loop ready_read ready_send d')"

declare poll_loop.simps [code]

text \<open>\<^verbatim>\<open>rfid_cr95hf_polling\<close>: send the poll control byte, then run the loop on one-byte reads.\<close>

definition rfid_cr95hf_polling :: "device \<Rightarrow> bool \<Rightarrow> bool \<Rightarrow> (int \<times> device) option" where
  "rfid_cr95hf_polling d ready_read ready_send =
     (let d1 = d\<lparr>snd_buffer := (snd_buffer d)[0 := 0x03], snd_len := 1, rcv_len := 0\<rparr>
      in case rfid_cr95hf_transceive d1 True of
           None \<Rightarrow> None
         | Some (err, d2) \<Rightarrow>
             if err \<noteq> 0 then Some (err, d2)
             else poll_loop ready_read ready_send (d2\<lparr>snd_len := 0, rcv_len := 1\<rparr>))"

text \<open>
  \<^verbatim>\<open>rfid_cr95hf_wait_for_irq_out_low\<close>: return at once when the line reads active;
  otherwise arm the edge interrupt, take the semaphore (forever, when the edge never
  comes) and disarm.
\<close>

definition rfid_cr95hf_wait_for_irq_out_low :: "device \<Rightarrow> device option" where
  "rfid_cr95hf_wait_for_irq_out_low d =
     (case irq_script d of
        [] \<Rightarrow> None
      | Asserted # rest \<Rightarrow>
          Some (d\<lparr>irq_script := rest, trace := trace d @ [IrqOutGet True]\<rparr>)
      | EdgeLater # rest \<Rightarrow>
          Some (d\<lparr>irq_script := rest,
                   trace := trace d @ [IrqOutGet False, IrqOutArm, SemTake, IrqOutDisarm]\<rparr>)
      | Silent # rest \<Rightarrow> None)"

text \<open>
  \<^verbatim>\<open>rfid_cr95hf_wait\<close> returns \<^verbatim>\<open>void\<close>: with no IRQ_OUT line it calls the polling
  routine with both flags set and drops its return value.
\<close>

definition rfid_cr95hf_wait :: "device \<Rightarrow> device option" where
  "rfid_cr95hf_wait d =
     (if \<not> irq_out d then
        (case rfid_cr95hf_polling d True True of
           None \<Rightarrow> None
         | Some (err, d') \<Rightarrow> Some d')
      else rfid_cr95hf_wait_for_irq_out_low d)"

section \<open>Response reader\<close>

text \<open>
  \<^verbatim>\<open>rfid_cr95hf_response\<close>: send the read control byte while receiving three bytes
  (chip-select kept), take the length from the third, clip it to the buffer size, and read
  that many bytes from the start of the receive buffer (chip-select released).
\<close>

definition rfid_cr95hf_response :: "device \<Rightarrow> (int \<times> device) option" where
  "rfid_cr95hf_response d =
     (let d1 = d\<lparr>snd_buffer := (snd_buffer d)[0 := 0x02], snd_len := 1, rcv_len := 3\<rparr>
      in case rfid_cr95hf_transceive d1 False of
           None \<Rightarrow> None
         | Some (err, d2) \<Rightarrow>
             if err \<noteq> 0 then Some (err, d2)
             else
               let data_len = unat (rcv_buffer d2 ! 2);
                   data_len' = (if data_len > RCV_BUF_SIZE d2 then RCV_BUF_SIZE d2
                                else data_len)
               in rfid_cr95hf_transceive (d2\<lparr>snd_len := 0, rcv_len := data_len'\<rparr>) True)"

text \<open>
  The driver's operations repeat one sequence: with a command in the send buffer,
  transceive it (releasing chip-select) and return its error; wait for readiness; read the
  response and return its error.  \<open>load_cmd\<close> is the run of assignments that puts a command
  at the start of the send buffer and sets the two lengths; \<open>send_wait_read\<close> is the
  sequence after it.
\<close>

definition memcpy :: "byte list \<Rightarrow> byte list \<Rightarrow> nat \<Rightarrow> byte list" where
  "memcpy dst src n = take n src @ drop n dst"

definition load_cmd :: "byte list \<Rightarrow> device \<Rightarrow> device" where
  "load_cmd cmd d =
     d\<lparr>snd_buffer := memcpy (snd_buffer d) cmd (length cmd),
       snd_len := length cmd, rcv_len := 0\<rparr>"

definition send_wait_read :: "device \<Rightarrow> (int \<times> device) option" where
  "send_wait_read d =
     (case rfid_cr95hf_transceive d True of
        None \<Rightarrow> None
      | Some (err, d1) \<Rightarrow>
          if err \<noteq> 0 then Some (err, d1)
          else (case rfid_cr95hf_wait d1 of
                  None \<Rightarrow> None
                | Some d2 \<Rightarrow> rfid_cr95hf_response d2))"

section \<open>Mode state machine\<close>

text \<open>
  \<^verbatim>\<open>rfid_cr95hf_select_mode\<close>.  The pre-delay compares the stored timestamp itself with 10;
  in READER mode nothing is done before the settle delay; every mode but TAG_DETECTOR ends in
  the default branch.  \<open>select_tag_detector\<close> is the body of \<^verbatim>\<open>case TAG_DETECTOR\<close>.
\<close>

definition select_tag_detector :: "device \<Rightarrow> (int \<times> device) option" where
  "select_tag_detector d =
     (let d1 = d\<lparr>snd_buffer := memcpy (snd_buffer d) (tag_detector_msg d) 17,
                 snd_len := 17, rcv_len := 0\<rparr>
      in case rfid_cr95hf_transceive d1 True of
           None \<Rightarrow> None
         | Some (err, d2) \<Rightarrow>
             if err \<noteq> 0 then Some (err, d2)
             else (case rfid_cr95hf_wait (rfid_cr95hf_setmode d2 TAG_DETECTOR) of
                     None \<Rightarrow> None
                   | Some d3 \<Rightarrow>
                       (case rfid_cr95hf_response d3 of
                          None \<Rightarrow> None
                        | Some (err', d4) \<Rightarrow>
                            if err' \<noteq> 0 then Some (err', d4)
                            else Some (0, rfid_cr95hf_setmode d4 READY))))"

definition rfid_cr95hf_select_mode :: "device \<Rightarrow> rfid_mode_t \<Rightarrow> (int \<times> device) option" where
  "rfid_cr95hf_select_mode d req_mode =
     (if req_mode = current_mode d then Some (0, d)
      else if mode_value req_mode \<ge> mode_value INVALID then Some (- EINVAL, d)
      else
        let d1 = (if cm_timestamp d < 10 then k_sleep (1000 * (10 - cm_timestamp d)) d
                  else d);
            d2 = (if current_mode d \<noteq> READY then
                    (if current_mode d = READER then d1
                     else rfid_cr95hf_setmode
                            (gpio_pin_set IRQ_IN False
                               (k_sleep 10 (gpio_pin_set IRQ_IN True d1))) READY)
                  else d1);
            d3 = k_sleep 10000 d2
        in case req_mode of
             TAG_DETECTOR \<Rightarrow> select_tag_detector d3
           | _ \<Rightarrow> Some (- EINVAL, d3))"

section \<open>Anticollision: reading the UID\<close>

text \<open>
  \<^verbatim>\<open>rfid_cr95hf_iso14443A_get_uid\<close>.  The caller passes the array \<open>uid\<close> (\<open>None\<close> is the
  null pointer) and the declared length \<open>uid_len\<close>; the call returns its return code, the
  array, the length and the device.  The function is one long body in the source; it is cut
  here at its two tests of the SAK byte: \<open>get_uid_cl1\<close> runs from REQA to the first SAK,
  \<open>get_uid_cl2\<close> is the first \<^verbatim>\<open>if (sak_byte & 0x04)\<close> block and \<open>get_uid_cl3\<close> the second
  one with the final \<^verbatim>\<open>return 0\<close>.  The last assignment of the third block, which reads
  the SAK from the send buffer, is a dead store and has no counterpart.
\<close>

definition sel_complete :: "byte \<Rightarrow> byte list \<Rightarrow> byte list" where
  "sel_complete sel rcv =
     [0x00, 0x04, 0x08, sel, 0x70, rcv ! 0, rcv ! 1, rcv ! 2, rcv ! 3, rcv ! 4, 0x28]"

definition get_uid_cl3 ::
  "byte \<Rightarrow> device \<Rightarrow> byte list \<Rightarrow> nat \<Rightarrow> (int \<times> byte list \<times> nat \<times> device) option" where
  "get_uid_cl3 sak_byte d uid uid_len =
     (if sak_byte AND 0x04 \<noteq> 0 then
        (case send_wait_read (load_cmd [0x00, 0x04, 0x03, 0x97, 0x20, 0x08] d) of
           None \<Rightarrow> None
         | Some (err, d1) \<Rightarrow>
             if err \<noteq> 0 then Some (err, uid, uid_len, d1)
             else
               let r = rcv_buffer d1;
                   uid' = uid[6 := r ! 0, 7 := r ! 1, 8 := r ! 2, 9 := r ! 3]
               in (case send_wait_read (load_cmd (sel_complete 0x97 r) d1) of
                     None \<Rightarrow> None
                   | Some (err', d2) \<Rightarrow>
                       if err' \<noteq> 0 then Some (err', uid', 10, d2)
                       else Some (0, uid', 10, d2)))
      else Some (0, uid, uid_len, d))"

definition get_uid_cl2 ::
  "byte \<Rightarrow> device \<Rightarrow> byte list \<Rightarrow> nat \<Rightarrow> (int \<times> byte list \<times> nat \<times> device) option" where
  "get_uid_cl2 sak_byte d uid uid_len =
     (if sak_byte AND 0x04 \<noteq> 0 then
        (case send_wait_read (load_cmd [0x00, 0x04, 0x03, 0x95, 0x20, 0x08] d) of
           None \<Rightarrow> None
         | Some (err, d1) \<Rightarrow>
             if err \<noteq> 0 then Some (err, uid, uid_len, d1)
             else
               let r = rcv_buffer d1;
                   uid' = (if r ! 0 = 0x88 then uid[3 := r ! 1, 4 := r ! 2, 5 := r ! 3]
                           else uid[3 := r ! 0, 4 := r ! 1, 5 := r ! 2, 6 := r ! 3]);
                   uid_len' = (if r ! 0 = 0x88 then uid_len else 7)
               in (case send_wait_read (load_cmd (sel_complete 0x95 r) d1) of
                     None \<Rightarrow> None
                   | Some (err', d2) \<Rightarrow>
                       if err' \<noteq> 0 then Some (err', uid', uid_len', d2)
                       else get_uid_cl3 (rcv_buffer d2 ! 0) d2 uid' uid_len'))
      else get_uid_cl3 sak_byte d uid uid_len)"

definition get_uid_cl1 ::
  "device \<Rightarrow> byte list \<Rightarrow> nat \<Rightarrow> (int \<times> byte list \<times> nat \<times> device) option" where
  "get_uid_cl1 d uid uid_len =
     (case send_wait_read (load_cmd [0x00, 0x04, 0x02, 0x26, 0x07] d) of
        None \<Rightarrow> None
      | Some (err, d1) \<Rightarrow>
          if err \<noteq> 0 then Some (err, uid, uid_len, d1)
          else
            (case send_wait_read (load_cmd [0x00, 0x04, 0x03, 0x93, 0x20, 0x08] d1) of
               None \<Rightarrow> None
             | Some (err', d2) \<Rightarrow>
                 if err' \<noteq> 0 then Some (err', uid, uid_len, d2)
                 else
                   let r = rcv_buffer d2;
                       uid' = (if r ! 0 = 0x88 then uid[0 := r ! 1, 1 := r ! 2, 2 := r ! 3]
                               else uid[0 := r ! 0, 1 := r ! 1, 2 := r ! 2, 3 := r ! 3]);
                       uid_len' = (if r ! 0 = 0x88 then uid_len else 4)
                   in (case send_wait_read (load_cmd (sel_complete 0x93 r) d2) of
                         None \<Rightarrow> None
                       | Some (err'', d3) \<Rightarrow>
                           if err'' \<noteq> 0 then Some (err'', uid', uid_len', d3)
                           else get_uid_cl2 (rcv_buffer d3 ! 0) d3 uid' uid_len')))"

definition rfid_cr95hf_iso14443A_get_uid ::
  "device \<Rightarrow> byte list option \<Rightarrow> nat
     \<Rightarrow> (int \<times> byte list option \<times> nat \<times> device) option" where
  "rfid_cr95hf_iso14443A_get_uid d uid uid_len =
     (if uid_len < 10 \<or> uid = None then Some (- EINVAL, uid, uid_len, d)
      else map_option (\<lambda>(err, u, l, d'). (err, Some u, l, d'))
             (get_uid_cl1 d (the uid) uid_len))"

section \<open>Protocol selector\<close>

definition rfid_cr95hf_protocol_select ::
  "device \<Rightarrow> rfid_protocol_t \<Rightarrow> (int \<times> device) option" where
  "rfid_cr95hf_protocol_select d proto =
     (case proto of
        ISO_14443A \<Rightarrow>
          send_wait_read
            (d\<lparr>snd_buffer := memcpy (snd_buffer d) (protocol_msg d) (protocol_msg_len d),
               snd_len := protocol_msg_len d, rcv_len := 0\<rparr>)
      | _ \<Rightarrow> Some (- EINVAL, d))"

section \<open>Calibration\<close>

text \<open>
  The \<^verbatim>\<open>switch (i)\<close> of \<^verbatim>\<open>rfid_cr95hf_calibration\<close>.  \<open>Some r\<close> is \<^verbatim>\<open>return r\<close>;
  \<open>None\<close> is \<^verbatim>\<open>break\<close>.  The candidate is the byte \<^verbatim>\<open>snd_buffer[14]\<close>: the updates
  \<^verbatim>\<open>-=\<close> and \<^verbatim>\<open>+=\<close> are on that byte, while the value returned at step 7 is the
  \<^verbatim>\<open>int\<close> expression \<^verbatim>\<open>snd_buffer[14] - 4\<close>.
\<close>

definition is_low :: "byte list \<Rightarrow> bool" where
  "is_low r = (r ! 0 = 0 \<and> r ! 1 = 1 \<and> r ! 2 = 1)"

definition is_high :: "byte list \<Rightarrow> bool" where
  "is_high r = (r ! 0 = 0 \<and> r ! 1 = 1 \<and> r ! 2 = 2)"

definition dac_ref :: "device \<Rightarrow> byte" where
  "dac_ref d = snd_buffer d ! 14"

definition set_dac_ref :: "byte \<Rightarrow> device \<Rightarrow> device" where
  "set_dac_ref v d = d\<lparr>snd_buffer := (snd_buffer d)[14 := v]\<rparr>"

definition search_step :: "byte \<Rightarrow> device \<Rightarrow> int option \<times> device" where
  "search_step delta d =
     (if is_low (rcv_buffer d) then (None, set_dac_ref (dac_ref d - delta) d)
      else if is_high (rcv_buffer d) then (None, set_dac_ref (dac_ref d + delta) d)
      else (Some (- EIO), d))"

definition calibration_switch :: "nat \<Rightarrow> device \<Rightarrow> int option \<times> device" where
  "calibration_switch i d =
     (if i = 0 then
        (if \<not> is_high (rcv_buffer d) then (Some (- EIO), d)
         else (None, set_dac_ref 0xFC d))
      else if i = 1 then
        (if \<not> is_low (rcv_buffer d) then (Some (- EIO), d)
         else (None, set_dac_ref (dac_ref d - 0x80) d))
      else if i = 2 then search_step 0x40 d
      else if i = 3 then search_step 0x20 d
      else if i = 4 then search_step 0x10 d
      else if i = 5 then search_step 0x08 d
      else if i = 6 then search_step 0x04 d
      else if i = 7 then
        (if is_low (rcv_buffer d) then (Some (uint (dac_ref d) - 4), d)
         else if is_high (rcv_buffer d) then (Some (uint (dac_ref d)), d)
         else (Some (- EIO), d))
      else (None, d))"

text \<open>The \<^verbatim>\<open>for\<close> loop, from step \<open>i\<close> on; \<^verbatim>\<open>-EIO\<close> is the return after the loop.\<close>

function calibration_loop :: "nat \<Rightarrow> device \<Rightarrow> (int \<times> device) option" where
  "calibration_loop i d =
     (if i < 8 then
        (case send_wait_read (d\<lparr>snd_len := 17, rcv_len := 0\<rparr>) of
           None \<Rightarrow> None
         | Some (err, d1) \<Rightarrow>
             if err \<noteq> 0 then Some (err, d1)
             else (case calibration_switch i d1 of
                     (Some r, d2) \<Rightarrow> Some (r, d2)
                   | (None, d2) \<Rightarrow> calibration_loop (i + 1) d2))
      else Some (- EIO, d))"
  by pat_completeness auto
termination
  by (relation "measure (\<lambda>(i, d). 8 - i)") auto

definition rfid_cr95hf_calibration :: "device \<Rightarrow> (int \<times> device) option" where
  "rfid_cr95hf_calibration d =
     calibration_loop 0
       (d\<lparr>snd_buffer :=
            memcpy (snd_buffer d)
              [0x00, 0x07, 0x0E, 0x03, 0xA1, 0x00, 0xF8, 0x01, 0x18, 0x00, 0x20, 0x60, 0x60,
               0x00, 0x00, 0x3F, 0x01] 17\<rparr>)"

section \<open>A test bench\<close>

text \<open>
  A concrete device for running the model: 32-byte buffers, the IRQ_OUT line configured,
  an idle device with empty scripts.  \<open>reply p\<close> is the bus traffic of one command whose
  response has payload \<open>p\<close>, when the IRQ_OUT line is used: the write of the command, the
  three-byte header carrying the length, and the payload.
\<close>

definition bench :: device where
  "bench = \<lparr>current_mode = READY, cm_timestamp = 50,
     tag_detector_msg = [0x00, 0x07, 0x0E, 0x0A, 0x21, 0x00, 0x79, 0x01, 0x18, 0x00, 0x20, 0x60,
                         0x60, 0x64, 0x74, 0x3F, 0x08],
     protocol_msg = [0x00, 0x02, 0x04, 0x02, 0x00, 0x01, 0x80, 0, 0, 0, 0, 0, 0],
     protocol_msg_len = 7, snd_len = 0, rcv_len = 0,
     rcv_buffer = replicate 32 0, snd_buffer = replicate 32 0,
     irq_out = True, RCV_BUF_SIZE = 32, spi_script = [], irq_script = [],
     uptime_us = 90000, cs_active = False, trace = []\<rparr>"

definition reply :: "byte list \<Rightarrow> (int \<times> byte list) list" where
  "reply payload = [(0, []), (0, [0, 0x80, of_nat (length payload)]), (0, payload)]"

section \<open>Auxiliary facts\<close>

lemmas model_defs = rfid_cr95hf_transceive_def spi_bus_def k_sleep_def gpio_pin_set_def
  store_rx_def rfid_cr95hf_wait_def rfid_cr95hf_wait_for_irq_out_low_def
  rfid_cr95hf_response_def send_wait_read_def load_cmd_def memcpy_def rfid_cr95hf_setmode_def
  k_uptime_get_def rfid_cr95hf_polling_def bench_def reply_def Let_def EINVAL_def EIO_def

lemmas get_uid_defs = rfid_cr95hf_iso14443A_get_uid_def get_uid_cl1_def get_uid_cl2_def
  get_uid_cl3_def

lemma take3_update:
  "3 \<le> length u \<Longrightarrow> take 3 (u[0 := a, Suc 0 := b, 2 := c]) = [a, b, c]"
  by (cases u; cases "tl u"; cases "tl (tl u)") (auto simp: numeral_2_eq_2)

lemma take4_update:
  "4 \<le> length u \<Longrightarrow> take 4 (u[0 := a, Suc 0 := b, 2 := c, 3 := e]) = [a, b, c, e]"
  by (cases u; cases "tl u"; cases "tl (tl u)"; cases "tl (tl (tl u))")
     (auto simp: numeral_2_eq_2 numeral_3_eq_3)

lemma nth_of_take5:
  assumes "take 5 r = [a, b, c, e, f]"
  shows "r ! 0 = a" "r ! 1 = b" "r ! 2 = c" "r ! 3 = e" "r ! 4 = f"
proof -
  have "\<And>i. i < 5 \<Longrightarrow> r ! i = [a, b, c, e, f] ! i"
    using assms by (metis nth_take)
  from this[of 0] this[of 1] this[of 2] this[of 3] this[of 4]
  show "r ! 0 = a" "r ! 1 = b" "r ! 2 = c" "r ! 3 = e" "r ! 4 = f"
    by simp_all
qed

lemma take10_update:
  assumes "10 \<le> length u"
  shows "take 10 (u[0 := a0, Suc 0 := a1, 2 := a2, 3 := a3, 4 := a4, 5 := a5, 6 := a6,
                    7 := a7, 8 := a8, 9 := a9])
           = [a0, a1, a2, a3, a4, a5, a6, a7, a8, a9]"
proof -
  let ?v = "u[0 := a0, Suc 0 := a1, 2 := a2, 3 := a3, 4 := a4, 5 := a5, 6 := a6,
              7 := a7, 8 := a8, 9 := a9]"
  have L: "0 < length u" "Suc 0 < length u" "2 < length u" "3 < length u" "4 < length u"
    "5 < length u" "6 < length u" "7 < length u" "8 < length u" "9 < length u"
    using assms by linarith+
  show ?thesis
  proof (rule nth_equalityI)
    show "length (take 10 ?v) = length [a0, a1, a2, a3, a4, a5, a6, a7, a8, a9]"
      using assms by simp
  next
    fix i
    assume "i < length (take 10 ?v)"
    then have "i < 10" by simp
    then have "i \<in> {0, 1, 2, 3, 4, 5, 6, 7, 8, 9}" by auto
    then show "take 10 ?v ! i = [a0, a1, a2, a3, a4, a5, a6, a7, a8, a9] ! i"
      using L by (auto simp: nth_list_update)
  qed
qed

lemma nth0_of_take1: "take (length [a]) r = [a] \<Longrightarrow> r ! 0 = a"
  by (metis One_nat_def length_Cons list.size(3) nth_Cons_0 nth_take zero_less_one)

text \<open>
  One exchange when the IRQ_OUT line is configured and already asserted: the command is
  written, the header \<open>[h0, h1, h2]\<close> is read, and the payload \<open>p\<close>, whose length the header
  announces, lands at the start of the receive buffer.
\<close>

lemma send_wait_read_asserted:
  assumes "irq_out d" and "irq_script d = Asserted # irs"
    and "spi_script d = (0, rx) # (0, [h0, h1, h2]) # (0, p) # rest"
    and "0 < snd_len d" and "rcv_len d = 0"
    and "unat h2 = length p" and "0 < length p" and "length p \<le> RCV_BUF_SIZE d"
    and "3 \<le> length (rcv_buffer d)" and "length p \<le> length (rcv_buffer d)"
  shows "\<exists>d'. send_wait_read d = Some (0, d') \<and> irq_out d' \<and> irq_script d' = irs
           \<and> spi_script d' = rest \<and> RCV_BUF_SIZE d' = RCV_BUF_SIZE d
           \<and> rcv_buffer d' = p @ drop (length p) ([h0, h1, h2] @ drop 3 (rcv_buffer d))"
  using assms
  by (simp add: send_wait_read_def rfid_cr95hf_transceive_def spi_bus_def k_sleep_def
        gpio_pin_set_def store_rx_def rfid_cr95hf_wait_def rfid_cr95hf_wait_for_irq_out_low_def
        rfid_cr95hf_response_def Let_def min_def nth_append)

lemma load_cmd_fields [simp]:
  "irq_out (load_cmd c d) = irq_out d"
  "irq_script (load_cmd c d) = irq_script d"
  "spi_script (load_cmd c d) = spi_script d"
  "RCV_BUF_SIZE (load_cmd c d) = RCV_BUF_SIZE d"
  "rcv_buffer (load_cmd c d) = rcv_buffer d"
  "snd_len (load_cmd c d) = length c"
  "rcv_len (load_cmd c d) = 0"
  by (simp_all add: load_cmd_def)

lemma exchange_on_bench:
  assumes "irq_out d" and "irq_script d = Asserted # irs"
    and "spi_script d = reply p @ rest"
    and "0 < length c" and "0 < length p" and "length p \<le> 32" and "RCV_BUF_SIZE d = 32"
    and "length (rcv_buffer d) = 32"
  obtains d' where "send_wait_read (load_cmd c d) = Some (0, d')" and "irq_out d'"
    and "irq_script d' = irs" and "spi_script d' = rest" and "RCV_BUF_SIZE d' = 32"
    and "length (rcv_buffer d') = 32" and "take (length p) (rcv_buffer d') = p"
proof -
  have "unat (of_nat (length p) :: byte) = length p"
    using assms(6) by (simp add: unat_of_nat)
  with assms send_wait_read_asserted [of "load_cmd c d" irs "[]" 0 "0x80" "of_nat (length p)" p rest]
  obtain d' where "send_wait_read (load_cmd c d) = Some (0, d')" "irq_out d'"
    "irq_script d' = irs" "spi_script d' = rest" "RCV_BUF_SIZE d' = 32"
    "rcv_buffer d' = p @ drop (length p) ([0, 0x80, of_nat (length p)] @ drop 3 (rcv_buffer d))"
    by (auto simp: reply_def)
  moreover from this assms have "length (rcv_buffer d') = 32" by auto
  moreover from calculation have "take (length p) (rcv_buffer d') = p" by simp
  ultimately show thesis using that by blast
qed

subsection \<open>The mode is written by the mode state machine only\<close>

text \<open>
  Bus transactions, readiness waits and response reads leave the mode, its timestamp and
  the IRQ_IN line alone.  The polling loop is handled by the induction rule of the partial
  function.  Hence reading the UID, selecting the protocol and calibrating keep the mode,
  and the mode state machine never moves a device into READER mode.
\<close>

lemma same_mode_refl [simp]: "same_mode d d"
  by (simp add: same_mode_def)

lemma same_mode_trans: "same_mode a b \<Longrightarrow> same_mode b c \<Longrightarrow> same_mode a c"
  by (simp add: same_mode_def)

lemma transceive_same_mode:
  "rfid_cr95hf_transceive d rel = Some (r, d') \<Longrightarrow> same_mode d d'"
  by (auto simp: rfid_cr95hf_transceive_def spi_bus_def k_sleep_def gpio_pin_set_def Let_def
        same_mode_def split: if_splits list.splits)

lemma poll_loop_step_same_mode:
  assumes IH: "\<And>a b c z. f a b c = Some z \<Longrightarrow> same_mode c (snd z)"
    and run: "(case rfid_cr95hf_transceive (d\<lparr>rcv_buffer := (rcv_buffer d)[0 := 0]\<rparr>) True of
                None \<Rightarrow> None
              | Some (err, d') \<Rightarrow>
                  if err \<noteq> 0 then Some (err, d')
                  else if rr \<and> (rcv_buffer d' ! 0) AND 0x8 \<noteq> 0 then Some (0, d')
                  else if rs \<and> (rcv_buffer d' ! 0) AND 0x4 \<noteq> 0 then Some (0, d')
                  else f rr rs d') = Some y"
  shows "same_mode d (snd y)"
proof -
  from run obtain err d' where
    t: "rfid_cr95hf_transceive (d\<lparr>rcv_buffer := (rcv_buffer d)[0 := 0]\<rparr>) True = Some (err, d')"
    by (auto split: option.splits)
  from transceive_same_mode [OF t] have s: "same_mode d d'"
    by (simp add: same_mode_def)
  show ?thesis
  proof (cases "y = (err, d')")
    case True
    with s show ?thesis by simp
  next
    case False
    with run t have "f rr rs d' = Some y"
      by (auto split: if_splits)
    from IH [OF this] have "same_mode d' (snd y)" .
    with s show ?thesis by (rule same_mode_trans)
  qed
qed

lemma poll_loop_same_mode:
  assumes "poll_loop rr rs d = Some y"
  shows "same_mode d (snd y)"
  by (rule poll_loop.raw_induct [where P = "\<lambda>a b c z. same_mode c (snd z)", OF _ assms])
     (rule poll_loop_step_same_mode)

lemma polling_same_mode:
  "rfid_cr95hf_polling d rr rs = Some (r, d') \<Longrightarrow> same_mode d d'"
proof -
  assume a: "rfid_cr95hf_polling d rr rs = Some (r, d')"
  let ?d1 = "d\<lparr>snd_buffer := (snd_buffer d)[0 := 0x03], snd_len := 1, rcv_len := 0\<rparr>"
  from a obtain err d2 where t: "rfid_cr95hf_transceive ?d1 True = Some (err, d2)"
    by (auto simp: rfid_cr95hf_polling_def Let_def split: option.splits)
  from transceive_same_mode [OF t] have s: "same_mode d d2"
    by (simp add: same_mode_def)
  show ?thesis
  proof (cases "err = 0")
    case False
    with a t s show ?thesis by (simp add: rfid_cr95hf_polling_def Let_def)
  next
    case True
    with a t have "poll_loop rr rs (d2\<lparr>snd_len := 0, rcv_len := 1\<rparr>) = Some (r, d')"
      by (simp add: rfid_cr95hf_polling_def Let_def)
    from poll_loop_same_mode [OF this] have "same_mode d2 d'"
      by (simp add: same_mode_def)
    with s show ?thesis by (rule same_mode_trans)
  qed
qed

lemma wait_same_mode: "rfid_cr95hf_wait d = Some d' \<Longrightarrow> same_mode d d'"
  by (auto simp: rfid_cr95hf_wait_def rfid_cr95hf_wait_for_irq_out_low_def same_mode_def
        split: if_splits option.splits list.splits irq_obs.splits
        dest!: polling_same_mode)

lemma response_same_mode:
  "rfid_cr95hf_response d = Some (r, d') \<Longrightarrow> same_mode d d'"
proof -
  assume a: "rfid_cr95hf_response d = Some (r, d')"
  let ?d1 = "d\<lparr>snd_buffer := (snd_buffer d)[0 := 0x02], snd_len := 1, rcv_len := 3\<rparr>"
  from a obtain err d2 where t: "rfid_cr95hf_transceive ?d1 False = Some (err, d2)"
    by (auto simp: rfid_cr95hf_response_def Let_def split: option.splits)
  from transceive_same_mode [OF t] have s: "same_mode d d2"
    by (simp add: same_mode_def)
  show ?thesis
  proof (cases "err = 0")
    case False
    with a t s show ?thesis by (simp add: rfid_cr95hf_response_def Let_def)
  next
    case True
    with a t obtain n where
      "rfid_cr95hf_transceive (d2\<lparr>snd_len := 0, rcv_len := n\<rparr>) True = Some (r, d')"
      by (auto simp: rfid_cr95hf_response_def Let_def)
    from transceive_same_mode [OF this] have "same_mode d2 d'"
      by (simp add: same_mode_def)
    with s show ?thesis by (rule same_mode_trans)
  qed
qed

lemma send_wait_read_same_mode:
  "send_wait_read d = Some (r, d') \<Longrightarrow> same_mode d d'"
  by (auto simp: send_wait_read_def split: option.splits if_splits
        dest!: transceive_same_mode wait_same_mode response_same_mode)
     (metis same_mode_trans)

lemma select_tag_detector_effect:
  assumes "select_tag_detector d = Some (r, d')"
  shows "filter is_irq_in_event (trace d') = filter is_irq_in_event (trace d)"
    and "current_mode d' \<in> {current_mode d, TAG_DETECTOR, READY}"
  using assms
  by (auto simp: select_tag_detector_def Let_def rfid_cr95hf_setmode_def same_mode_def
        split: option.splits if_splits
        dest!: transceive_same_mode wait_same_mode response_same_mode)

lemma select_mode_never_enters_reader:
  assumes "current_mode d \<noteq> READER"
    and "rfid_cr95hf_select_mode d req_mode = Some (r, d')"
  shows "current_mode d' \<noteq> READER"
proof (cases "req_mode = current_mode d \<or> mode_value req_mode \<ge> mode_value INVALID")
  case True
  with assms show ?thesis
    by (auto simp: rfid_cr95hf_select_mode_def split: if_splits)
next
  case False
  define d1 where
    "d1 = (if cm_timestamp d < 10 then k_sleep (1000 * (10 - cm_timestamp d)) d else d)"
  define d3 where
    "d3 = k_sleep 10000
            (if current_mode d \<noteq> READY then
               rfid_cr95hf_setmode
                 (gpio_pin_set IRQ_IN False (k_sleep 10 (gpio_pin_set IRQ_IN True d1))) READY
             else d1)"
  have m: "current_mode d3 = READY"
    by (simp add: d3_def d1_def k_sleep_def gpio_pin_set_def rfid_cr95hf_setmode_def)
  have sel: "rfid_cr95hf_select_mode d req_mode
               = (case req_mode of TAG_DETECTOR \<Rightarrow> select_tag_detector d3
                  | _ \<Rightarrow> Some (- EINVAL, d3))"
    using False assms(1) unfolding d3_def d1_def rfid_cr95hf_select_mode_def Let_def
    by (cases "cm_timestamp d < 10"; cases "current_mode d = READY"; simp)
  show ?thesis
  proof (cases "req_mode = TAG_DETECTOR")
    case True
    with sel assms(2) have "select_tag_detector d3 = Some (r, d')" by simp
    from select_tag_detector_effect(2) [OF this] m show ?thesis by auto
  next
    case False
    with sel assms(2) have "d' = d3" by (cases req_mode) simp_all
    with m show ?thesis by simp
  qed
qed

lemma load_cmd_mode [simp]: "current_mode (load_cmd c d) = current_mode d"
  by (simp add: load_cmd_def)

lemma send_wait_read_keeps_mode:
  "send_wait_read d = Some (r, d') \<Longrightarrow> current_mode d' = current_mode d"
  by (drule send_wait_read_same_mode) (simp add: same_mode_def)

lemma protocol_select_keeps_mode:
  "rfid_cr95hf_protocol_select d p = Some (r, d') \<Longrightarrow> current_mode d' = current_mode d"
  by (cases p) (auto simp: rfid_cr95hf_protocol_select_def dest!: send_wait_read_keeps_mode)

lemma get_uid_cl3_keeps_mode:
  "get_uid_cl3 s d u l = Some (r, u', l', d') \<Longrightarrow> current_mode d' = current_mode d"
  by (auto simp: get_uid_cl3_def Let_def split: if_splits option.splits
        dest!: send_wait_read_keeps_mode)

lemma get_uid_cl2_keeps_mode:
  "get_uid_cl2 s d u l = Some (r, u', l', d') \<Longrightarrow> current_mode d' = current_mode d"
  by (auto simp: get_uid_cl2_def Let_def split: if_splits option.splits
        dest!: send_wait_read_keeps_mode get_uid_cl3_keeps_mode)

lemma get_uid_cl1_keeps_mode:
  "get_uid_cl1 d u l = Some (r, u', l', d') \<Longrightarrow> current_mode d' = current_mode d"
  by (auto simp: get_uid_cl1_def Let_def split: if_splits option.splits
        dest!: send_wait_read_keeps_mode get_uid_cl2_keeps_mode)

lemma get_uid_keeps_mode:
  "rfid_cr95hf_iso14443A_get_uid d u l = Some (r, u', l', d')
     \<Longrightarrow> current_mode d' = current_mode d"
  by (auto simp: rfid_cr95hf_iso14443A_get_uid_def split: if_splits
        dest!: get_uid_cl1_keeps_mode)

lemma calibration_switch_keeps_mode:
  "calibration_switch i d = (x, d') \<Longrightarrow> current_mode d' = current_mode d"
  by (auto simp: calibration_switch_def search_step_def set_dac_ref_def split: if_splits)

lemma calibration_loop_keeps_mode:
  "calibration_loop i d = Some (r, d') \<Longrightarrow> current_mode d' = current_mode d"
proof (induction i d rule: calibration_loop.induct)
  case (1 i d)
  show ?case
  proof (cases "i < 8")
    case False
    with "1.prems" show ?thesis by simp
  next
    case True
    with "1.prems" obtain err d1 where
      e: "send_wait_read (d\<lparr>snd_len := 17, rcv_len := 0\<rparr>) = Some (err, d1)"
      by (auto split: option.splits)
    from send_wait_read_keeps_mode [OF e] have m1: "current_mode d1 = current_mode d"
      by simp
    show ?thesis
    proof (cases "err = 0")
      case False
      with "1.prems" True e m1 show ?thesis by simp
    next
      case z: True
      obtain x d2 where s: "calibration_switch i d1 = (x, d2)"
        by (cases "calibration_switch i d1")
      from calibration_switch_keeps_mode [OF s] m1
      have m2: "current_mode d2 = current_mode d" by simp
      show ?thesis
      proof (cases x)
        case (Some v)
        with "1.prems" True e z s m2 show ?thesis by simp
      next
        case None
        with "1.prems" True e z s have "calibration_loop (i + 1) d2 = Some (r, d')"
          by simp
        moreover from z have "\<not> err \<noteq> 0" by simp
        ultimately have "current_mode d' = current_mode d2"
          using "1.IH" [OF True e refl _ s [symmetric] None] by blast
        with m2 show ?thesis by simp
      qed
    qed
  qed
qed

lemma calibration_keeps_mode:
  "rfid_cr95hf_calibration d = Some (r, d') \<Longrightarrow> current_mode d' = current_mode d"
  unfolding rfid_cr95hf_calibration_def by (drule calibration_loop_keeps_mode) simp

section \<open>Frame transport: the error path\<close>

text \<open>
  Claim C9.  When the bus primitive fails during a transceive call whose release flag is
  true, the call returns that error at once: chip-select is still asserted, and after the
  failed bus call nothing more happens, neither the release of chip-select nor a delay.
  The only effects are the assertion of chip-select, the 1 ms settle delay before the
  bus call, and the bus call itself.
\<close>

theorem transceive_bus_error_keeps_cs:
  assumes "snd_len d > 0 \<or> rcv_len d > 0"
    and "spi_script d = (err, rx) # rest"
    and "err \<noteq> 0"
  shows "\<exists>d' ev. rfid_cr95hf_transceive d True = Some (err, d')
           \<and> cs_active d'
           \<and> is_spi_event ev
           \<and> trace d' = trace d @ [GpioSet CS True, Sleep 1000, ev]
           \<and> uptime_us d' = uptime_us d + 1000"
  using assms
  by (auto simp: rfid_cr95hf_transceive_def spi_bus_def k_sleep_def gpio_pin_set_def Let_def)

theorem transceive_bus_error_keeps_cs_witness:
  "0 < snd_len (bench\<lparr>snd_len := 1, spi_script := [(- 5, [])]\<rparr>)
   \<and> (\<exists>d'. rfid_cr95hf_transceive (bench\<lparr>snd_len := 1, spi_script := [(- 5, [])]\<rparr>) True
               = Some (- 5, d')
           \<and> cs_active d'
           \<and> trace d' = [GpioSet CS True, Sleep 1000, SpiWrite [0]]
           \<and> uptime_us d' = 91000)"
proof -
  have "\<exists>d' ev. rfid_cr95hf_transceive (bench\<lparr>snd_len := 1, spi_script := [(- 5, [])]\<rparr>) True
               = Some (- 5, d')
           \<and> cs_active d' \<and> is_spi_event ev
           \<and> trace d' = trace (bench\<lparr>snd_len := 1, spi_script := [(- 5, [])]\<rparr>)
                          @ [GpioSet CS True, Sleep 1000, ev]
           \<and> uptime_us d' = uptime_us (bench\<lparr>snd_len := 1, spi_script := [(- 5, [])]\<rparr>) + 1000"
    by (rule transceive_bus_error_keeps_cs [of _ _ "[]" "[]"]) (simp_all add: bench_def)
  then show ?thesis
    by (auto simp: model_defs)
qed

section \<open>Reading the UID: argument checks\<close>

text \<open>
  Claim C8.  When the declared buffer length is below 10, \<^verbatim>\<open>get_uid\<close> returns
  \<^verbatim>\<open>-EINVAL\<close> and nothing else happens: the array and the length come back as they were
  passed, and the device is returned unchanged, so its trace has no new event (no bus
  call, no GPIO access, no delay) and no entry of the bus script is used.
\<close>

theorem get_uid_short_buffer_rejected:
  "uid_len < 10 \<Longrightarrow>
     rfid_cr95hf_iso14443A_get_uid d uid uid_len = Some (- EINVAL, uid, uid_len, d)"
  by (simp add: rfid_cr95hf_iso14443A_get_uid_def)

theorem get_uid_short_buffer_rejected_witness:
  "(4::nat) < 10 \<and>
     rfid_cr95hf_iso14443A_get_uid (bench\<lparr>spi_script := reply [4, 0]\<rparr>) (Some [1, 2, 3, 4]) 4
       = Some (- 22, Some [1, 2, 3, 4], 4, bench\<lparr>spi_script := reply [4, 0]\<rparr>)"
  using get_uid_short_buffer_rejected
          [of 4 "bench\<lparr>spi_script := reply [4, 0]\<rparr>" "Some [1, 2, 3, 4]"]
  by (simp add: EINVAL_def)

text \<open>
  Claim C10.  With a null array pointer \<^verbatim>\<open>get_uid\<close> returns \<^verbatim>\<open>-EINVAL\<close> whatever the
  declared length is, and the device is returned unchanged: no bus call has been made.
\<close>

theorem get_uid_null_buffer_rejected:
  "rfid_cr95hf_iso14443A_get_uid d None uid_len = Some (- EINVAL, None, uid_len, d)"
  by (simp add: rfid_cr95hf_iso14443A_get_uid_def)

section \<open>Reading the UID: one cascade level\<close>

text \<open>
  Claim C6.  Let the exchanges for REQA, SEL_CL1 and the level-1 completion succeed, and
  let the SAK byte read after the completion have bit \<^verbatim>\<open>0x04\<close> clear.  When the SEL_CL1
  response is \<^verbatim>\<open>88 11 22 33 44\<close>, the call succeeds, the UID array begins
  \<^verbatim>\<open>11 22 33\<close>, every later position of the array keeps the caller's byte (level 2
  contributes nothing), and the length is the one the caller passed, which is not 7.
  When the SEL_CL1 response is \<^verbatim>\<open>AA BB CC DD EE\<close>, the call succeeds, the UID array
  begins \<^verbatim>\<open>AA BB CC DD\<close> and the length is 4.  The caller's array holds at least the
  declared number of bytes, which is at least 10.
\<close>

theorem get_uid_sak_without_cascade_bit:
  assumes len: "10 \<le> uid_len" "uid_len \<le> length uid"
    and reqa: "send_wait_read (load_cmd [0x00, 0x04, 0x02, 0x26, 0x07] d) = Some (0, d1)"
    and sel: "send_wait_read (load_cmd [0x00, 0x04, 0x03, 0x93, 0x20, 0x08] d1) = Some (0, d2)"
    and compl: "send_wait_read (load_cmd (sel_complete 0x93 (rcv_buffer d2)) d2) = Some (0, d3)"
    and sak: "(rcv_buffer d3 ! 0) AND 0x04 = 0"
  shows "(take 5 (rcv_buffer d2) = [0x88, 0x11, 0x22, 0x33, 0x44] \<longrightarrow>
            (\<exists>uid'. rfid_cr95hf_iso14443A_get_uid d (Some uid) uid_len
                        = Some (0, Some uid', uid_len, d3)
                 \<and> take 3 uid' = [0x11, 0x22, 0x33] \<and> drop 3 uid' = drop 3 uid
                 \<and> uid_len \<noteq> 7))
       \<and> (take 5 (rcv_buffer d2) = [0xAA, 0xBB, 0xCC, 0xDD, 0xEE] \<longrightarrow>
            (\<exists>uid'. rfid_cr95hf_iso14443A_get_uid d (Some uid) uid_len
                        = Some (0, Some uid', 4, d3)
                 \<and> take 4 uid' = [0xAA, 0xBB, 0xCC, 0xDD] \<and> drop 4 uid' = drop 4 uid))"
proof (intro conjI impI)
  assume r: "take 5 (rcv_buffer d2) = [0x88, 0x11, 0x22, 0x33, 0x44]"
  have "rfid_cr95hf_iso14443A_get_uid d (Some uid) uid_len
          = Some (0, Some (uid[0 := 0x11, Suc 0 := 0x22, 2 := 0x33]), uid_len, d3)"
    using len reqa sel compl sak nth_of_take5[OF r]
    by (simp add: get_uid_defs)
  moreover have "take 3 (uid[0 := 0x11, Suc 0 := 0x22, 2 := 0x33]) = [0x11, 0x22, 0x33]"
    using len by (intro take3_update) simp
  ultimately show "\<exists>uid'. rfid_cr95hf_iso14443A_get_uid d (Some uid) uid_len
                        = Some (0, Some uid', uid_len, d3)
                 \<and> take 3 uid' = [0x11, 0x22, 0x33] \<and> drop 3 uid' = drop 3 uid
                 \<and> uid_len \<noteq> 7"
    using len by simp
next
  assume r: "take 5 (rcv_buffer d2) = [0xAA, 0xBB, 0xCC, 0xDD, 0xEE]"
  have "rfid_cr95hf_iso14443A_get_uid d (Some uid) uid_len
          = Some (0, Some (uid[0 := 0xAA, Suc 0 := 0xBB, 2 := 0xCC, 3 := 0xDD]), 4, d3)"
    using len reqa sel compl sak nth_of_take5[OF r]
    by (simp add: get_uid_defs)
  moreover have "take 4 (uid[0 := 0xAA, Suc 0 := 0xBB, 2 := 0xCC, 3 := 0xDD])
                   = [0xAA, 0xBB, 0xCC, 0xDD]"
    using len by (intro take4_update) simp
  ultimately show "\<exists>uid'. rfid_cr95hf_iso14443A_get_uid d (Some uid) uid_len
                        = Some (0, Some uid', 4, d3)
                 \<and> take 4 uid' = [0xAA, 0xBB, 0xCC, 0xDD] \<and> drop 4 uid' = drop 4 uid"
    by simp
qed

theorem get_uid_sak_without_cascade_bit_witness:
  "(\<exists>uid' d3. rfid_cr95hf_iso14443A_get_uid
        (bench\<lparr>spi_script := reply [0x44, 0x00] @ reply [0x88, 0x11, 0x22, 0x33, 0x44]
                   @ reply [0x00],
               irq_script := [Asserted, Asserted, Asserted]\<rparr>)
        (Some (replicate 10 0xFF)) 10 = Some (0, Some uid', 10, d3)
      \<and> take 3 uid' = [0x11, 0x22, 0x33] \<and> drop 3 uid' = replicate 7 0xFF)
   \<and> (\<exists>uid' d3. rfid_cr95hf_iso14443A_get_uid
        (bench\<lparr>spi_script := reply [0x04, 0x00] @ reply [0xAA, 0xBB, 0xCC, 0xDD, 0xEE]
                   @ reply [0x08],
               irq_script := [Asserted, Asserted, Asserted]\<rparr>)
        (Some (replicate 10 0xFF)) 10 = Some (0, Some uid', 4, d3)
      \<and> take 4 uid' = [0xAA, 0xBB, 0xCC, 0xDD])"
proof (intro conjI)
  have five: "\<And>a b c e f :: byte. length [a, b, c, e, f] = 5" by simp
  have l: "10 \<le> (10::nat)" "10 \<le> length (replicate 10 (0xFF::byte))" by simp_all
  define D where "D = bench\<lparr>spi_script := reply [0x44, 0x00]
                   @ reply [0x88, 0x11, 0x22, 0x33, 0x44] @ reply [0x00],
               irq_script := [Asserted, Asserted, Asserted]\<rparr>"
  have D: "irq_out D" "RCV_BUF_SIZE D = 32" "length (rcv_buffer D) = 32"
    "irq_script D = [Asserted, Asserted, Asserted]"
    "spi_script D = reply [0x44, 0x00] @ reply [0x88, 0x11, 0x22, 0x33, 0x44] @ reply [0x00]"
    by (simp_all add: D_def bench_def)
  obtain d1 where h1: "send_wait_read (load_cmd [0x00, 0x04, 0x02, 0x26, 0x07] D) = Some (0, d1)"
    and p1: "irq_out d1" "irq_script d1 = [Asserted, Asserted]"
      "spi_script d1 = reply [0x88, 0x11, 0x22, 0x33, 0x44] @ reply [0x00]"
      "RCV_BUF_SIZE d1 = 32" "length (rcv_buffer d1) = 32"
    by (rule exchange_on_bench [of D _ "[0x44, 0x00]" _ "[0x00, 0x04, 0x02, 0x26, 0x07]"])
       (simp_all add: D)
  obtain d2 where h2: "send_wait_read (load_cmd [0x00, 0x04, 0x03, 0x93, 0x20, 0x08] d1) = Some (0, d2)"
    and p2: "irq_out d2" "irq_script d2 = [Asserted]" "spi_script d2 = reply [0x00]"
      "RCV_BUF_SIZE d2 = 32" "length (rcv_buffer d2) = 32"
    and r2: "take (length [0x88, 0x11, 0x22, 0x33, 0x44 :: byte]) (rcv_buffer d2)
               = [0x88, 0x11, 0x22, 0x33, 0x44]"
    by (rule exchange_on_bench [of d1 _ "[0x88, 0x11, 0x22, 0x33, 0x44]" "reply [0x00]"
                                   "[0x00, 0x04, 0x03, 0x93, 0x20, 0x08]"])
       (simp_all add: p1)
  obtain d3 where h3: "send_wait_read (load_cmd (sel_complete 0x93 (rcv_buffer d2)) d2) = Some (0, d3)"
    and r3: "take (length [0x00 :: byte]) (rcv_buffer d3) = [0x00]"
    by (rule exchange_on_bench [of d2 _ "[0x00]" "[]" "sel_complete 0x93 (rcv_buffer d2)"])
       (simp_all add: p2 sel_complete_def)
  have s3: "(rcv_buffer d3 ! 0) AND 0x04 = 0"
    using nth0_of_take1 [OF r3] by simp
  from get_uid_sak_without_cascade_bit [OF l h1 h2 h3 s3] r2 [unfolded five]
  show "\<exists>uid' d3. rfid_cr95hf_iso14443A_get_uid
        (bench\<lparr>spi_script := reply [0x44, 0x00] @ reply [0x88, 0x11, 0x22, 0x33, 0x44]
                   @ reply [0x00],
               irq_script := [Asserted, Asserted, Asserted]\<rparr>)
        (Some (replicate 10 0xFF)) 10 = Some (0, Some uid', 10, d3)
      \<and> take 3 uid' = [0x11, 0x22, 0x33] \<and> drop 3 uid' = replicate 7 0xFF"
    unfolding D_def by auto
next
  have five: "\<And>a b c e f :: byte. length [a, b, c, e, f] = 5" by simp
  have l: "10 \<le> (10::nat)" "10 \<le> length (replicate 10 (0xFF::byte))" by simp_all
  define D where "D = bench\<lparr>spi_script := reply [0x04, 0x00]
                   @ reply [0xAA, 0xBB, 0xCC, 0xDD, 0xEE] @ reply [0x08],
               irq_script := [Asserted, Asserted, Asserted]\<rparr>"
  have D: "irq_out D" "RCV_BUF_SIZE D = 32" "length (rcv_buffer D) = 32"
    "irq_script D = [Asserted, Asserted, Asserted]"
    "spi_script D = reply [0x04, 0x00] @ reply [0xAA, 0xBB, 0xCC, 0xDD, 0xEE] @ reply [0x08]"
    by (simp_all add: D_def bench_def)
  obtain d1 where h1: "send_wait_read (load_cmd [0x00, 0x04, 0x02, 0x26, 0x07] D) = Some (0, d1)"
    and p1: "irq_out d1" "irq_script d1 = [Asserted, Asserted]"
      "spi_script d1 = reply [0xAA, 0xBB, 0xCC, 0xDD, 0xEE] @ reply [0x08]"
      "RCV_BUF_SIZE d1 = 32" "length (rcv_buffer d1) = 32"
    by (rule exchange_on_bench [of D _ "[0x04, 0x00]" _ "[0x00, 0x04, 0x02, 0x26, 0x07]"])
       (simp_all add: D)
  obtain d2 where h2: "send_wait_read (load_cmd [0x00, 0x04, 0x03, 0x93, 0x20, 0x08] d1) = Some (0, d2)"
    and p2: "irq_out d2" "irq_script d2 = [Asserted]" "spi_script d2 = reply [0x08]"
      "RCV_BUF_SIZE d2 = 32" "length (rcv_buffer d2) = 32"
    and r2: "take (length [0xAA, 0xBB, 0xCC, 0xDD, 0xEE :: byte]) (rcv_buffer d2)
               = [0xAA, 0xBB, 0xCC, 0xDD, 0xEE]"
    by (rule exchange_on_bench [of d1 _ "[0xAA, 0xBB, 0xCC, 0xDD, 0xEE]" "reply [0x08]"
                                   "[0x00, 0x04, 0x03, 0x93, 0x20, 0x08]"])
       (simp_all add: p1)
  obtain d3 where h3: "send_wait_read (load_cmd (sel_complete 0x93 (rcv_buffer d2)) d2) = Some (0, d3)"
    and r3: "take (length [0x08 :: byte]) (rcv_buffer d3) = [0x08]"
    by (rule exchange_on_bench [of d2 _ "[0x08]" "[]" "sel_complete 0x93 (rcv_buffer d2)"])
       (simp_all add: p2 sel_complete_def)
  have s3: "(rcv_buffer d3 ! 0) AND 0x04 = 0"
    using nth0_of_take1 [OF r3] by simp
  from get_uid_sak_without_cascade_bit [OF l h1 h2 h3 s3] r2 [unfolded five]
  show "\<exists>uid' d3. rfid_cr95hf_iso14443A_get_uid
        (bench\<lparr>spi_script := reply [0x04, 0x00] @ reply [0xAA, 0xBB, 0xCC, 0xDD, 0xEE]
                   @ reply [0x08],
               irq_script := [Asserted, Asserted, Asserted]\<rparr>)
        (Some (replicate 10 0xFF)) 10 = Some (0, Some uid', 4, d3)
      \<and> take 4 uid' = [0xAA, 0xBB, 0xCC, 0xDD]"
    unfolding D_def by auto
qed

section \<open>Reading the UID: three cascade levels\<close>

text \<open>
  Claim C7.  Let all seven exchanges succeed (REQA, then select and completion at levels
  1, 2 and 3), let the select responses of levels 1 and 2 start with the cascade tag
  \<^verbatim>\<open>0x88\<close>, and let the SAK bytes read after the completions of levels 1 and 2 have bit
  \<^verbatim>\<open>0x04\<close> set.  Then the call succeeds with length 10, and the first ten bytes of the
  array are bytes 1 to 3 of the level-1 response, bytes 1 to 3 of the level-2 response and
  bytes 0 to 3 of the level-3 response; the rest of the caller's array is untouched.  The
  SAK byte after level 3 plays no part: the result is the same whether its bit is clear or
  not.
\<close>

theorem get_uid_three_cascade_levels:
  assumes len: "10 \<le> uid_len" "uid_len \<le> length uid"
    and reqa: "send_wait_read (load_cmd [0x00, 0x04, 0x02, 0x26, 0x07] d) = Some (0, d1)"
    and sel1: "send_wait_read (load_cmd [0x00, 0x04, 0x03, 0x93, 0x20, 0x08] d1) = Some (0, d2)"
    and cmp1: "send_wait_read (load_cmd (sel_complete 0x93 (rcv_buffer d2)) d2) = Some (0, d3)"
    and sel2: "send_wait_read (load_cmd [0x00, 0x04, 0x03, 0x95, 0x20, 0x08] d3) = Some (0, d4)"
    and cmp2: "send_wait_read (load_cmd (sel_complete 0x95 (rcv_buffer d4)) d4) = Some (0, d5)"
    and sel3: "send_wait_read (load_cmd [0x00, 0x04, 0x03, 0x97, 0x20, 0x08] d5) = Some (0, d6)"
    and cmp3: "send_wait_read (load_cmd (sel_complete 0x97 (rcv_buffer d6)) d6) = Some (0, d7)"
    and tag1: "rcv_buffer d2 ! 0 = 0x88"
    and tag2: "rcv_buffer d4 ! 0 = 0x88"
    and sak1: "(rcv_buffer d3 ! 0) AND 0x04 \<noteq> 0"
    and sak2: "(rcv_buffer d5 ! 0) AND 0x04 \<noteq> 0"
  shows "\<exists>uid'. rfid_cr95hf_iso14443A_get_uid d (Some uid) uid_len = Some (0, Some uid', 10, d7)
           \<and> take 10 uid' = [rcv_buffer d2 ! 1, rcv_buffer d2 ! 2, rcv_buffer d2 ! 3,
                              rcv_buffer d4 ! 1, rcv_buffer d4 ! 2, rcv_buffer d4 ! 3,
                              rcv_buffer d6 ! 0, rcv_buffer d6 ! 1, rcv_buffer d6 ! 2,
                              rcv_buffer d6 ! 3]
           \<and> drop 10 uid' = drop 10 uid"
proof -
  let ?u = "uid[0 := rcv_buffer d2 ! 1, Suc 0 := rcv_buffer d2 ! 2, 2 := rcv_buffer d2 ! 3,
                3 := rcv_buffer d4 ! 1, 4 := rcv_buffer d4 ! 2, 5 := rcv_buffer d4 ! 3,
                6 := rcv_buffer d6 ! 0, 7 := rcv_buffer d6 ! 1, 8 := rcv_buffer d6 ! 2,
                9 := rcv_buffer d6 ! 3]"
  have "rfid_cr95hf_iso14443A_get_uid d (Some uid) uid_len = Some (0, Some ?u, 10, d7)"
    using len reqa sel1 cmp1 sel2 cmp2 sel3 cmp3 tag1 tag2 sak1 sak2
    by (simp add: get_uid_defs Let_def)
  moreover have "take 10 ?u = [rcv_buffer d2 ! 1, rcv_buffer d2 ! 2, rcv_buffer d2 ! 3,
                              rcv_buffer d4 ! 1, rcv_buffer d4 ! 2, rcv_buffer d4 ! 3,
                              rcv_buffer d6 ! 0, rcv_buffer d6 ! 1, rcv_buffer d6 ! 2,
                              rcv_buffer d6 ! 3]"
    using len by (intro take10_update) simp
  moreover have "drop 10 ?u = drop 10 uid" by simp
  ultimately show ?thesis by blast
qed

theorem get_uid_three_cascade_levels_witness:
  "\<exists>d7. rfid_cr95hf_iso14443A_get_uid
      (bench\<lparr>spi_script := reply [0x44, 0x00] @ reply [0x88, 0x04, 0x11, 0x22, 0xBF]
                 @ reply [0x04] @ reply [0x88, 0x33, 0x44, 0x55, 0xAA] @ reply [0x24]
                 @ reply [0x66, 0x77, 0x88, 0x99, 0x00] @ reply [0x20],
             irq_script := [Asserted, Asserted, Asserted, Asserted, Asserted, Asserted,
                            Asserted]\<rparr>)
      (Some (replicate 10 0)) 10
    = Some (0, Some [0x04, 0x11, 0x22, 0x33, 0x44, 0x55, 0x66, 0x77, 0x88, 0x99], 10, d7)"
proof -
  define D where "D = bench\<lparr>spi_script := reply [0x44, 0x00] @ reply [0x88, 0x04, 0x11, 0x22, 0xBF]
                 @ reply [0x04] @ reply [0x88, 0x33, 0x44, 0x55, 0xAA] @ reply [0x24]
                 @ reply [0x66, 0x77, 0x88, 0x99, 0x00] @ reply [0x20],
             irq_script := [Asserted, Asserted, Asserted, Asserted, Asserted, Asserted,
                            Asserted]\<rparr>"
  have D: "irq_out D" "RCV_BUF_SIZE D = 32" "length (rcv_buffer D) = 32"
    "irq_script D = [Asserted, Asserted, Asserted, Asserted, Asserted, Asserted, Asserted]"
    "spi_script D = reply [0x44, 0x00] @ reply [0x88, 0x04, 0x11, 0x22, 0xBF]
                 @ reply [0x04] @ reply [0x88, 0x33, 0x44, 0x55, 0xAA] @ reply [0x24]
                 @ reply [0x66, 0x77, 0x88, 0x99, 0x00] @ reply [0x20]"
    by (simp_all add: D_def bench_def)
  obtain d1 where h1: "send_wait_read (load_cmd [0x00, 0x04, 0x02, 0x26, 0x07] D) = Some (0, d1)"
    and p1: "irq_out d1" "irq_script d1 = [Asserted, Asserted, Asserted, Asserted, Asserted, Asserted]"
      "spi_script d1 = reply [0x88, 0x04, 0x11, 0x22, 0xBF]
                 @ reply [0x04] @ reply [0x88, 0x33, 0x44, 0x55, 0xAA] @ reply [0x24]
                 @ reply [0x66, 0x77, 0x88, 0x99, 0x00] @ reply [0x20]"
      "RCV_BUF_SIZE d1 = 32" "length (rcv_buffer d1) = 32"
    by (rule exchange_on_bench [of D _ "[0x44, 0x00]" _ "[0x00, 0x04, 0x02, 0x26, 0x07]"])
       (simp_all add: D)
  obtain d2 where h2: "send_wait_read (load_cmd [0x00, 0x04, 0x03, 0x93, 0x20, 0x08] d1) = Some (0, d2)"
    and p2: "irq_out d2" "irq_script d2 = [Asserted, Asserted, Asserted, Asserted, Asserted]"
      "spi_script d2 = reply [0x04] @ reply [0x88, 0x33, 0x44, 0x55, 0xAA] @ reply [0x24]
                 @ reply [0x66, 0x77, 0x88, 0x99, 0x00] @ reply [0x20]"
      "RCV_BUF_SIZE d2 = 32" "length (rcv_buffer d2) = 32"
    and r2: "take (length [0x88, 0x04, 0x11, 0x22, 0xBF :: byte]) (rcv_buffer d2) = [0x88, 0x04, 0x11, 0x22, 0xBF]"
    by (rule exchange_on_bench [of d1 _ "[0x88, 0x04, 0x11, 0x22, 0xBF]" _ "[0x00, 0x04, 0x03, 0x93, 0x20, 0x08]"])
       (simp_all add: p1)
  obtain d3 where h3: "send_wait_read (load_cmd (sel_complete 0x93 (rcv_buffer d2)) d2) = Some (0, d3)"
    and p3: "irq_out d3" "irq_script d3 = [Asserted, Asserted, Asserted, Asserted]"
      "spi_script d3 = reply [0x88, 0x33, 0x44, 0x55, 0xAA] @ reply [0x24]
                 @ reply [0x66, 0x77, 0x88, 0x99, 0x00] @ reply [0x20]"
      "RCV_BUF_SIZE d3 = 32" "length (rcv_buffer d3) = 32"
    and r3: "take (length [0x04 :: byte]) (rcv_buffer d3) = [0x04]"
    by (rule exchange_on_bench [of d2 _ "[0x04]" _ "sel_complete 0x93 (rcv_buffer d2)"])
       (simp_all add: p2 sel_complete_def)
  obtain d4 where h4: "send_wait_read (load_cmd [0x00, 0x04, 0x03, 0x95, 0x20, 0x08] d3) = Some (0, d4)"
    and p4: "irq_out d4" "irq_script d4 = [Asserted, Asserted, Asserted]"
      "spi_script d4 = reply [0x24] @ reply [0x66, 0x77, 0x88, 0x99, 0x00] @ reply [0x20]"
      "RCV_BUF_SIZE d4 = 32" "length (rcv_buffer d4) = 32"
    and r4: "take (length [0x88, 0x33, 0x44, 0x55, 0xAA :: byte]) (rcv_buffer d4) = [0x88, 0x33, 0x44, 0x55, 0xAA]"
    by (rule exchange_on_bench [of d3 _ "[0x88, 0x33, 0x44, 0x55, 0xAA]" _ "[0x00, 0x04, 0x03, 0x95, 0x20, 0x08]"])
       (simp_all add: p3)
  obtain d5 where h5: "send_wait_read (load_cmd (sel_complete 0x95 (rcv_buffer d4)) d4) = Some (0, d5)"
    and p5: "irq_out d5" "irq_script d5 = [Asserted, Asserted]"
      "spi_script d5 = reply [0x66, 0x77, 0x88, 0x99, 0x00] @ reply [0x20]"
      "RCV_BUF_SIZE d5 = 32" "length (rcv_buffer d5) = 32"
    and r5: "take (length [0x24 :: byte]) (rcv_buffer d5) = [0x24]"
    by (rule exchange_on_bench [of d4 _ "[0x24]" _ "sel_complete 0x95 (rcv_buffer d4)"])
       (simp_all add: p4 sel_complete_def)
  obtain d6 where h6: "send_wait_read (load_cmd [0x00, 0x04, 0x03, 0x97, 0x20, 0x08] d5) = Some (0, d6)"
    and p6: "irq_out d6" "irq_script d6 = [Asserted]"
      "spi_script d6 = reply [0x20]"
      "RCV_BUF_SIZE d6 = 32" "length (rcv_buffer d6) = 32"
    and r6: "take (length [0x66, 0x77, 0x88, 0x99, 0x00 :: byte]) (rcv_buffer d6) = [0x66, 0x77, 0x88, 0x99, 0x00]"
    by (rule exchange_on_bench [of d5 _ "[0x66, 0x77, 0x88, 0x99, 0x00]" "reply [0x20]" "[0x00, 0x04, 0x03, 0x97, 0x20, 0x08]"])
       (simp_all add: p5)
  obtain d7 where h7: "send_wait_read (load_cmd (sel_complete 0x97 (rcv_buffer d6)) d6) = Some (0, d7)"
    by (rule exchange_on_bench [of d6 _ "[0x20]" "[]" "sel_complete 0x97 (rcv_buffer d6)"])
       (simp_all add: p6 sel_complete_def)
  have five: "\<And>a b c e f :: byte. length [a, b, c, e, f] = 5" by simp
  have n2: "rcv_buffer d2 ! 0 = 0x88" "rcv_buffer d2 ! 1 = 0x04" "rcv_buffer d2 ! 2 = 0x11"
    "rcv_buffer d2 ! 3 = 0x22"
    using nth_of_take5 [OF r2 [unfolded five]] by simp_all
  have n4: "rcv_buffer d4 ! 0 = 0x88" "rcv_buffer d4 ! 1 = 0x33" "rcv_buffer d4 ! 2 = 0x44"
    "rcv_buffer d4 ! 3 = 0x55"
    using nth_of_take5 [OF r4 [unfolded five]] by simp_all
  have n6: "rcv_buffer d6 ! 0 = 0x66" "rcv_buffer d6 ! 1 = 0x77" "rcv_buffer d6 ! 2 = 0x88"
    "rcv_buffer d6 ! 3 = 0x99"
    using nth_of_take5 [OF r6 [unfolded five]] by simp_all
  have s3: "(rcv_buffer d3 ! 0) AND 0x04 \<noteq> 0"
    using nth0_of_take1 [OF r3] by simp
  have s5: "(rcv_buffer d5 ! 0) AND 0x04 \<noteq> 0"
    using nth0_of_take1 [OF r5] by simp
  have l: "10 \<le> (10::nat)" "10 \<le> length (replicate 10 (0::byte))" by simp_all
  from get_uid_three_cascade_levels [OF l h1 h2 h3 h4 h5 h6 h7 n2(1) n4(1) s3 s5]
  have "\<exists>uid'. rfid_cr95hf_iso14443A_get_uid D (Some (replicate 10 0)) 10
          = Some (0, Some uid', 10, d7)
        \<and> take 10 uid' = [0x04, 0x11, 0x22, 0x33, 0x44, 0x55, 0x66, 0x77, 0x88, 0x99]
        \<and> drop 10 uid' = drop 10 (replicate 10 0)"
    unfolding n2 n4 n6 .
  then obtain uid' where g: "rfid_cr95hf_iso14443A_get_uid D (Some (replicate 10 0)) 10
        = Some (0, Some uid', 10, d7)"
    and t: "take 10 uid' = [0x04, 0x11, 0x22, 0x33, 0x44, 0x55, 0x66, 0x77, 0x88, 0x99]"
    and r: "drop 10 uid' = drop 10 (replicate 10 0)"
    by blast
  have "uid' = take 10 uid' @ drop 10 uid'" by simp
  also have "\<dots> = [0x04, 0x11, 0x22, 0x33, 0x44, 0x55, 0x66, 0x77, 0x88, 0x99]"
    unfolding t r by simp
  finally show ?thesis using g unfolding D_def by blast
qed

section \<open>Mode state machine: the settle time before a transition\<close>

text \<open>
  Claim C1.  The claim asks for a pre-delay of the remainder of 10 ms whenever less than
  10 ms have passed since the last mode change.  The code compares the stored timestamp
  with 10, not the time that has passed.  Here the last mode change was at 50 ms and the
  clock reads 55 ms, so 5 ms have passed: the call to switch from POWER_UP to TAG_DETECTOR
  succeeds, and its first effect is the wake pulse on IRQ_IN, with no delay before it (the
  10 ms delay after the pulse is the fixed settle time that every transition has).
\<close>

theorem select_mode_predelay_ignores_clock:
  "map_option (\<lambda>(err, d'). (err, take 5 (trace d')))
     (rfid_cr95hf_select_mode
        (bench\<lparr>current_mode := POWER_UP, cm_timestamp := 50, uptime_us := 55000,
               spi_script := reply [0x00, 0x01], irq_script := [Asserted]\<rparr>)
        TAG_DETECTOR)
   = Some (0, [GpioSet IRQ_IN True, Sleep 10, GpioSet IRQ_IN False, Sleep 10000,
               GpioSet CS True])"
  by (simp add: rfid_cr95hf_select_mode_def select_tag_detector_def model_defs)

section \<open>Mode state machine: leaving READER mode\<close>




section \<open>Propagation of bus errors\<close>

text \<open>
  Claim C5.  The claim asks that every bus failure inside an operation, also one inside the
  polling of the readiness synchronizer, comes back as the operation's error.  The wait
  routine drops the return value of the polling routine.  Here no IRQ_OUT line is configured;
  the write of the protocol command and the write of the poll control byte succeed, the
  first read of the flag byte shows no ready bit, the second read fails with \<open>-5\<close>, and
  the header that follows announces an empty payload: the protocol selection returns 0,
  having used all five bus calls; in the trace the failed read is followed at once by the
  header transaction of the response reader.
\<close>

theorem protocol_select_swallows_poll_error:
  "map_option (\<lambda>(err, d'). (err, spi_script d', trace d'))
     (rfid_cr95hf_protocol_select
        (bench\<lparr>irq_out := False,
               spi_script := [(0, []), (0, []), (0, [0x00]), (- 5, []), (0, [0, 0, 0])]\<rparr>)
        ISO_14443A)
   = Some (0, [],
       [GpioSet CS True, Sleep 1000, SpiWrite [0x00, 0x02, 0x04, 0x02, 0x00, 0x01, 0x80],
        Sleep 1000, GpioSet CS False, Sleep 1000,
        GpioSet CS True, Sleep 1000, SpiWrite [0x03], Sleep 1000, GpioSet CS False, Sleep 1000,
        GpioSet CS True, Sleep 1000, SpiRead 1, Sleep 1000, GpioSet CS False, Sleep 1000,
        GpioSet CS True, Sleep 1000, SpiRead 1,
        GpioSet CS True, Sleep 1000, SpiTransceive [0x02] 3, Sleep 1000,
        GpioSet CS True, Sleep 1000, Sleep 1000, GpioSet CS False, Sleep 1000])"
  by (simp add: rfid_cr95hf_protocol_select_def model_defs poll_loop.simps)

section \<open>Reading the UID: the length on the cascade-tag path\<close>

text \<open>
  Claim C2.  The claim asks that every successful call writes the length, and that the
  length is then 4, 7 or 10.  On the path where the SEL_CL1 response starts with the cascade
  tag and the SAK byte has bit \<^verbatim>\<open>0x04\<close> clear, no assignment to the length is reached.
  Here the caller declares 16 bytes: the call returns 0, the array begins
  \<^verbatim>\<open>11 22 33\<close>, and the length is still 16.
\<close>

theorem get_uid_length_not_written:
  "map_option (\<lambda>(err, u, l, d'). (err, u, l))
     (rfid_cr95hf_iso14443A_get_uid
        (bench\<lparr>spi_script := reply [0x44, 0x00] @ reply [0x88, 0x11, 0x22, 0x33, 0x44]
                   @ reply [0x00],
               irq_script := [Asserted, Asserted, Asserted]\<rparr>)
        (Some [0, 0, 0, 0, 0, 0, 0, 0, 0, 0, 0, 0, 0, 0, 0, 0]) 16)
   = Some (0, Some [0x11, 0x22, 0x33, 0, 0, 0, 0, 0, 0, 0, 0, 0, 0, 0, 0, 0], 16)"
  by (simp add: get_uid_defs sel_complete_def model_defs)

section \<open>Calibration: the all-LOW sequence\<close>

text \<open>
  Claim C3.  The claim asks that the all-LOW sequence (the baseline \<open>(0,1,2)\<close> at step 0,
  then \<open>(0,1,1)\<close> at steps 1 to 7) returns the reference value as 8-bit arithmetic on the
  candidate.  The candidate goes \<^verbatim>\<open>FC 7C 3C 1C 0C 04 00\<close>, and step 7 returns the
  \<^verbatim>\<open>int\<close> expression \<^verbatim>\<open>snd_buffer[14] - 4\<close>: the call returns \<open>-4\<close>, a negative value,
  which the API reads as an error, and not the byte \<^verbatim>\<open>FC\<close>.
\<close>

theorem calibration_all_low_negative:
  "map_option (\<lambda>(r, d'). (r, dac_ref d'))
     (rfid_cr95hf_calibration
        (bench\<lparr>spi_script := reply [0, 1, 2] @ reply [0, 1, 1] @ reply [0, 1, 1]
                   @ reply [0, 1, 1] @ reply [0, 1, 1] @ reply [0, 1, 1] @ reply [0, 1, 1]
                   @ reply [0, 1, 1],
               irq_script := [Asserted, Asserted, Asserted, Asserted, Asserted, Asserted,
                              Asserted, Asserted]\<rparr>))
   = Some (- 4, 0)"
  by (simp add: rfid_cr95hf_calibration_def calibration_switch_def search_step_def is_low_def
        is_high_def dac_ref_def set_dac_ref_def model_defs)

text \<open>
  For comparison, the sequence with HIGH at steps 2 to 7 stays within a byte and returns
  \<^verbatim>\<open>F8\<close>, that is \<open>0xFC - 0x80 + 0x40 + 0x20 + 0x10 + 0x08 + 0x04\<close>; and a baseline
  other than \<open>(0,1,2)\<close> at step 0 ends the call with \<^verbatim>\<open>-EIO\<close> after one probe.
\<close>

lemma calibration_all_high:
  "map_option fst
     (rfid_cr95hf_calibration
        (bench\<lparr>spi_script := reply [0, 1, 2] @ reply [0, 1, 1] @ reply [0, 1, 2]
                   @ reply [0, 1, 2] @ reply [0, 1, 2] @ reply [0, 1, 2] @ reply [0, 1, 2]
                   @ reply [0, 1, 2],
               irq_script := [Asserted, Asserted, Asserted, Asserted, Asserted, Asserted,
                              Asserted, Asserted]\<rparr>))
   = Some 0xF8"
  by (simp add: rfid_cr95hf_calibration_def calibration_switch_def search_step_def is_low_def
        is_high_def dac_ref_def set_dac_ref_def model_defs)

lemma calibration_bad_baseline:
  "map_option (\<lambda>(r, d'). (r, spi_script d'))
     (rfid_cr95hf_calibration
        (bench\<lparr>spi_script := reply [0, 1, 1] @ reply [0, 1, 1],
               irq_script := [Asserted, Asserted]\<rparr>))
   = Some (- EIO, reply [0, 1, 1])"
  by (simp add: rfid_cr95hf_calibration_def calibration_switch_def search_step_def is_low_def
        is_high_def dac_ref_def set_dac_ref_def model_defs)

end
